theory Spec2Isabelle
  imports Main
begin

section \<open>Python values and their text forms\<close>

text \<open>
  The tool-call handler of \<^verbatim>\<open>mcp_server.py\<close> receives its arguments as a
  \<^verbatim>\<open>Dict[str, Any]\<close> decoded from JSON. The scalar JSON values are modelled:
  null, booleans, integers, floats and strings. A float is carried as the text that
  \<^verbatim>\<open>repr\<close> prints for it (no floating-point arithmetic is done by the handlers);
  nested lists and objects are not modelled. A Python \<^verbatim>\<open>str\<close> is a \<open>string\<close> whose
  characters are the code points below 256, and \<^verbatim>\<open>bytes\<close> is a \<open>string\<close> whose
  characters are the bytes.
\<close>

datatype pyval = PNone | PBool bool | PInt int | PFloat string | PStr string

definition digit_char :: "nat \<Rightarrow> char" where
  "digit_char n = char_of (48 + n)"

fun nat_dec :: "nat \<Rightarrow> string" where
  "nat_dec n = (if n < 10 then [digit_char n] else nat_dec (n div 10) @ [digit_char (n mod 10)])"

declare nat_dec.simps [simp del]

definition int_dec :: "int \<Rightarrow> string" where
  "int_dec i = (if i < 0 then CHR ''-'' # nat_dec (nat (- i)) else nat_dec (nat i))"

text \<open>\<^verbatim>\<open>str(v)\<close>, which is also what an f-string field \<^verbatim>\<open>{v}\<close> prints.\<close>

fun py_str :: "pyval \<Rightarrow> string" where
  "py_str PNone = ''None''"
| "py_str (PBool b) = (if b then ''True'' else ''False'')"
| "py_str (PInt i) = int_dec i"
| "py_str (PFloat r) = r"
| "py_str (PStr s) = s"

text \<open>The truth value of \<^verbatim>\<open>v\<close> in \<^verbatim>\<open>x if v else y\<close>.\<close>

fun truthy :: "pyval \<Rightarrow> bool" where
  "truthy PNone = False"
| "truthy (PBool b) = b"
| "truthy (PInt i) = (i \<noteq> 0)"
| "truthy (PFloat r) = (r \<noteq> ''0.0'' \<and> r \<noteq> ''-0.0'')"
| "truthy (PStr s) = (s \<noteq> [])"

text \<open>\<^verbatim>\<open>d.get(key, default)\<close>\<close>

definition dict_get :: "(string \<rightharpoonup> pyval) \<Rightarrow> string \<Rightarrow> pyval \<Rightarrow> pyval" where
  "dict_get d key dflt = (case d key of None \<Rightarrow> dflt | Some v \<Rightarrow> v)"

fun str_join :: "string \<Rightarrow> string list \<Rightarrow> string" where
  "str_join sep [] = []"
| "str_join sep [x] = x"
| "str_join sep (x # y # ys) = x @ sep @ str_join sep (y # ys)"

subsection \<open>\<^verbatim>\<open>json.dumps\<close> with its default settings\<close>

text \<open>
  With \<^verbatim>\<open>ensure_ascii=True\<close> every character outside the printable ASCII range,
  the double quote and the backslash are escaped; the item separator is \<^verbatim>\<open>", "\<close> and
  the key separator \<^verbatim>\<open>": "\<close>.
\<close>

definition hex_digit :: "nat \<Rightarrow> char" where
  "hex_digit n = (if n < 10 then char_of (48 + n) else char_of (87 + n))"

definition escape_char :: "char \<Rightarrow> string" where
  "escape_char c =
     (let n = (of_char c :: nat) in
      if n = 34 then [CHR 0x5C, CHR 0x22]
      else if n = 92 then [CHR 0x5C, CHR 0x5C]
      else if n = 10 then [CHR 0x5C, CHR ''n'']
      else if n = 13 then [CHR 0x5C, CHR ''r'']
      else if n = 9 then [CHR 0x5C, CHR ''t'']
      else if n = 8 then [CHR 0x5C, CHR ''b'']
      else if n = 12 then [CHR 0x5C, CHR ''f'']
      else if 32 \<le> n \<and> n \<le> 126 then [c]
      else [CHR 0x5C, CHR ''u'', CHR ''0'', CHR ''0'', hex_digit (n div 16), hex_digit (n mod 16)])"

definition json_str :: "string \<Rightarrow> string" where
  "json_str s = CHR 0x22 # concat (map escape_char s) @ [CHR 0x22]"

fun json_val :: "pyval \<Rightarrow> string" where
  "json_val PNone = ''null''"
| "json_val (PBool b) = (if b then ''true'' else ''false'')"
| "json_val (PInt i) = int_dec i"
| "json_val (PFloat r) =
     (if r = ''nan'' then ''NaN'' else if r = ''inf'' then ''Infinity''
      else if r = ''-inf'' then ''-Infinity'' else r)"
| "json_val (PStr s) = json_str s"

definition json_item :: "string \<times> pyval \<Rightarrow> string" where
  "json_item kv = json_str (fst kv) @ '': '' @ json_val (snd kv)"

definition json_dumps :: "(string \<times> pyval) list \<Rightarrow> string" where
  "json_dumps d = ''{'' @ str_join '', '' (map json_item d) @ ''}''"

section \<open>Base64 (\<^verbatim>\<open>base64.b64encode\<close>, \<^verbatim>\<open>base64.b64decode\<close>)\<close>

text \<open>
  The standard alphabet of RFC 4648 with \<^verbatim>\<open>=\<close> padding. The shifts and masks of the
  encoder and decoder are written as multiplication, \<open>div\<close> and \<open>mod\<close> by powers of two.
\<close>

definition b64chr :: "nat \<Rightarrow> char" where
  "b64chr i =
     (if i < 26 then char_of (65 + i)
      else if i < 52 then char_of (97 + (i - 26))
      else if i < 62 then char_of (48 + (i - 52))
      else if i = 62 then CHR ''+'' else CHR ''/'')"

definition b64idx :: "char \<Rightarrow> nat option" where
  "b64idx c =
     (let n = (of_char c :: nat) in
      if 65 \<le> n \<and> n \<le> 90 then Some (n - 65)
      else if 97 \<le> n \<and> n \<le> 122 then Some (n - 97 + 26)
      else if 48 \<le> n \<and> n \<le> 57 then Some (n - 48 + 52)
      else if n = 43 then Some 62
      else if n = 47 then Some 63
      else None)"

fun b64encode :: "string \<Rightarrow> string" where
  "b64encode [] = []"
| "b64encode [a] =
     (let x = (of_char a :: nat) in
      [b64chr (x div 4), b64chr (x mod 4 * 16), CHR ''='', CHR ''=''])"
| "b64encode [a, b] =
     (let x = (of_char a :: nat); y = (of_char b :: nat) in
      [b64chr (x div 4), b64chr (x mod 4 * 16 + y div 16), b64chr (y mod 16 * 4), CHR ''=''])"
| "b64encode (a # b # c # rest) =
     (let x = (of_char a :: nat); y = (of_char b :: nat); z = (of_char c :: nat) in
      [b64chr (x div 4), b64chr (x mod 4 * 16 + y div 16),
       b64chr (y mod 16 * 4 + z div 64), b64chr (z mod 64)]) @ b64encode rest"

datatype binascii_error = NonAscii | IncorrectPadding | BadLength

text \<open>
  The decoder in its default, non-strict mode: characters outside the alphabet are
  skipped, a complete pad sequence ends the input, and input that stops inside a
  quad is an error. The state is the position in the current quad, the bits left
  over from the previous character, the pad count and the bytes produced so far.
\<close>

fun a2b_base64 :: "string \<Rightarrow> nat \<Rightarrow> nat \<Rightarrow> nat \<Rightarrow> string \<Rightarrow> binascii_error + string" where
  "a2b_base64 [] quad_pos leftchar pads out =
     (if quad_pos = 0 then Inr out
      else if quad_pos = 1 then Inl BadLength else Inl IncorrectPadding)"
| "a2b_base64 (ch # rest) quad_pos leftchar pads out =
     (if ch = CHR ''='' then
        (if quad_pos \<ge> 2 then
           (if quad_pos + (pads + 1) \<ge> 4 then Inr out
            else a2b_base64 rest quad_pos leftchar (pads + 1) out)
         else a2b_base64 rest quad_pos leftchar pads out)
      else
        (case b64idx ch of
           None \<Rightarrow> a2b_base64 rest quad_pos leftchar pads out
         | Some this_ch \<Rightarrow>
             (if quad_pos = 0 then a2b_base64 rest 1 this_ch 0 out
              else if quad_pos = 1 then
                a2b_base64 rest 2 (this_ch mod 16) 0
                  (out @ [char_of (leftchar * 4 + this_ch div 16)])
              else if quad_pos = 2 then
                a2b_base64 rest 3 (this_ch mod 4) 0
                  (out @ [char_of (leftchar * 16 + this_ch div 4)])
              else
                a2b_base64 rest 0 0 0
                  (out @ [char_of (leftchar * 64 + this_ch)]))))"

definition b64decode :: "string \<Rightarrow> binascii_error + string" where
  "b64decode s =
     (if list_all (\<lambda>c. (of_char c :: nat) < 128) s then a2b_base64 s 0 0 0 []
      else Inl NonAscii)"

section \<open>Dates and times\<close>

record datetime =
  year :: nat
  month :: nat
  day :: nat
  hour :: nat
  minute :: nat
  second :: nat
  microsecond :: nat

definition valid_datetime :: "datetime \<Rightarrow> bool" where
  "valid_datetime d =
     (1 \<le> year d \<and> year d \<le> 9999 \<and> 1 \<le> month d \<and> month d \<le> 12 \<and>
      1 \<le> day d \<and> day d \<le> 31 \<and> hour d < 24 \<and> minute d < 60 \<and> second d < 60 \<and>
      microsecond d < 1000000)"

text \<open>\<^verbatim>\<open>"%0kd" % n\<close>\<close>

definition zpad :: "nat \<Rightarrow> nat \<Rightarrow> string" where
  "zpad k n = replicate (k - length (nat_dec n)) CHR ''0'' @ nat_dec n"

text \<open>\<^verbatim>\<open>d.strftime("%Y%m%d_%H%M%S")\<close>\<close>

definition strftime_compact :: "datetime \<Rightarrow> string" where
  "strftime_compact d =
     zpad 4 (year d) @ zpad 2 (month d) @ zpad 2 (day d) @ ''_'' @
     zpad 2 (hour d) @ zpad 2 (minute d) @ zpad 2 (second d)"

text \<open>\<^verbatim>\<open>d.isoformat()\<close> of a naive datetime: the fraction is printed only when it is not zero.\<close>

definition isoformat :: "datetime \<Rightarrow> string" where
  "isoformat d =
     zpad 4 (year d) @ ''-'' @ zpad 2 (month d) @ ''-'' @ zpad 2 (day d) @ ''T'' @
     zpad 2 (hour d) @ '':'' @ zpad 2 (minute d) @ '':'' @ zpad 2 (second d) @
     (if microsecond d = 0 then [] else ''.'' @ zpad 6 (microsecond d))"

subsection \<open>A recogniser of the ISO 8601 extended format\<close>

definition is_digit :: "char \<Rightarrow> bool" where
  "is_digit c = (48 \<le> (of_char c :: nat) \<and> (of_char c :: nat) \<le> 57)"

fun take_digits :: "nat \<Rightarrow> string \<Rightarrow> string option" where
  "take_digits 0 s = Some s"
| "take_digits (Suc k) [] = None"
| "take_digits (Suc k) (c # s) = (if is_digit c then take_digits k s else None)"

fun expect :: "char \<Rightarrow> string \<Rightarrow> string option" where
  "expect c [] = None"
| "expect c (x # s) = (if x = c then Some s else None)"

text \<open>\<^verbatim>\<open>YYYY-MM-DDTHH:MM:SS\<close> with an optional fraction \<^verbatim>\<open>.ffffff\<close>.\<close>

definition iso8601_seconds :: "string \<Rightarrow> string option" where
  "iso8601_seconds s =
     Option.bind (take_digits 4 s) (\<lambda>s.
     Option.bind (expect CHR ''-'' s) (\<lambda>s.
     Option.bind (take_digits 2 s) (\<lambda>s.
     Option.bind (expect CHR ''-'' s) (\<lambda>s.
     Option.bind (take_digits 2 s) (\<lambda>s.
     Option.bind (expect CHR ''T'' s) (\<lambda>s.
     Option.bind (take_digits 2 s) (\<lambda>s.
     Option.bind (expect CHR '':'' s) (\<lambda>s.
     Option.bind (take_digits 2 s) (\<lambda>s.
     Option.bind (expect CHR '':'' s) (\<lambda>s.
     take_digits 2 s))))))))))"

definition is_iso8601 :: "string \<Rightarrow> bool" where
  "is_iso8601 s =
     (case iso8601_seconds s of
        None \<Rightarrow> False
      | Some r \<Rightarrow>
          (if r = [] then True
           else Option.bind (expect CHR ''.'' r) (take_digits 6) = Some []))"

section \<open>The operating system as seen by the handlers\<close>

text \<open>
  Exceptions are values. Only the classes the handlers tell apart are kept apart;
  every other subclass of \<^verbatim>\<open>Exception\<close> is \<open>OtherError\<close> with its message.
\<close>

datatype exn = TimeoutExpired "string list" nat | RuntimeError string | OtherError string

text \<open>
  \<^verbatim>\<open>repr\<close> of a list of strings, for strings that need no escaping (the command
  lines built below consist of such strings).
\<close>

definition repr_str :: "string \<Rightarrow> string" where
  "repr_str s = [CHR 0x27] @ s @ [CHR 0x27]"

definition repr_list :: "string list \<Rightarrow> string" where
  "repr_list xs = ''['' @ str_join '', '' (map repr_str xs) @ '']''"

text \<open>\<^verbatim>\<open>str(e)\<close>\<close>

fun str_exn :: "exn \<Rightarrow> string" where
  "str_exn (TimeoutExpired cmd t) =
     ''Command '' @ [CHR 0x27] @ repr_list cmd @ [CHR 0x27] @ '' timed out after '' @
     nat_dec t @ '' seconds''"
| "str_exn (RuntimeError m) = m"
| "str_exn (OtherError m) = m"

text \<open>
  What an external command does when it is run: it exits with a return code and its
  captured output; or it is still running when the bounded wait ends; or it is started
  but collecting its output raises (with \<^verbatim>\<open>text=True\<close>, bytes that cannot be decoded);
  or it cannot be started at all (the executable is missing, an argument holds a NUL
  character).
\<close>

datatype proc_behaviour =
  Exits int string string | Hangs | Breaks string | FailsToStart string

datatype event = Started "string list" | Killed "string list"

datatype fs_fault = NoFault | MakedirsFails string | OpenFails string | WriteFails string

text \<open>
  The environment answers what the handlers cannot decide: how a command behaves and
  which files it writes, what the clocks read, whether a file can be removed, where
  the home directory is, whether the file system refuses the log write, and how the
  schema validator words its message for a tool name and its arguments.
\<close>

record env =
  behaviour :: "string list \<Rightarrow> proc_behaviour"
  proc_writes :: "string list \<Rightarrow> (string \<rightharpoonup> string)"
  now :: "nat \<Rightarrow> datetime"
  remove_fails :: "string \<Rightarrow> bool"
  loop_time :: string
  home :: string
  fault :: fs_fault
  schema_message :: "string \<Rightarrow> (string \<rightharpoonup> pyval) \<Rightarrow> string"

text \<open>
  The state the handlers change: the files with their contents, the directories, the
  trace of processes started and killed, and the calls of \<^verbatim>\<open>subprocess.run\<close> with the
  command line and the bound of the wait in seconds.
\<close>

record world =
  files :: "string \<rightharpoonup> string"
  dirs :: "string set"
  events :: "event list"
  calls :: "(string list \<times> nat) list"

record CompletedProcess =
  args :: "string list"
  returncode :: int
  stdout :: string
  stderr :: string

text \<open>
  \<^verbatim>\<open>subprocess.run(argv, capture_output=True, text=True, timeout=t)\<close>. When the wait
  ends before the child does, the child is killed and \<^verbatim>\<open>TimeoutExpired\<close> is raised;
  when collecting the output raises anything else, the child is killed too and the
  exception is raised again; when the child cannot be started, nothing runs.
\<close>

definition subprocess_run ::
  "env \<Rightarrow> string list \<Rightarrow> nat \<Rightarrow> world \<Rightarrow> (exn + CompletedProcess) \<times> world" where
  "subprocess_run e argv t w =
     (case behaviour e argv of
        Exits rc out err \<Rightarrow>
          (Inr \<lparr>args = argv, returncode = rc, stdout = out, stderr = err\<rparr>,
           w\<lparr>files := files w ++ proc_writes e argv, events := events w @ [Started argv],
             calls := calls w @ [(argv, t)]\<rparr>)
      | Hangs \<Rightarrow>
          (Inl (TimeoutExpired argv t),
           w\<lparr>files := files w ++ proc_writes e argv,
             events := events w @ [Started argv, Killed argv],
             calls := calls w @ [(argv, t)]\<rparr>)
      | Breaks m \<Rightarrow>
          (Inl (OtherError m),
           w\<lparr>files := files w ++ proc_writes e argv,
             events := events w @ [Started argv, Killed argv],
             calls := calls w @ [(argv, t)]\<rparr>)
      | FailsToStart m \<Rightarrow> (Inl (OtherError m), w\<lparr>calls := calls w @ [(argv, t)]\<rparr>))"

section \<open>The tool-call handler (\<^verbatim>\<open>mcp_server.py\<close>)\<close>

record TextContent =
  type :: string
  "text" :: string

definition text_reply :: "string \<Rightarrow> TextContent list" where
  "text_reply s = [\<lparr>type = ''text'', text = s\<rparr>]"

text \<open>The AppleScript of \<^verbatim>\<open>show_popup\<close>, an f-string over the three arguments.\<close>

definition applescript :: "pyval \<Rightarrow> pyval \<Rightarrow> pyval \<Rightarrow> string" where
  \<open>applescript title message severity =
     ''\<newline>            display alert "'' @ py_str title @ ''" message "'' @ py_str message @
     ''" as '' @ py_str severity @ '' giving up after 10\<newline>            ''\<close>

definition popup_argv :: "(string \<rightharpoonup> pyval) \<Rightarrow> string list" where
  "popup_argv arguments =
     (let title = dict_get arguments ''title'' (PStr ''Productivity Alert'');
          message = dict_get arguments ''message'' (PStr ''Please return to your productive work'');
          severity = dict_get arguments ''severity'' (PStr ''warning'')
      in [''osascript'', ''-e'', applescript title message severity])"

definition show_popup :: "env \<Rightarrow> (string \<rightharpoonup> pyval) \<Rightarrow> world \<Rightarrow> TextContent list \<times> world" where
  "show_popup e arguments w =
     (let title = dict_get arguments ''title'' (PStr ''Productivity Alert'');
          message = dict_get arguments ''message'' (PStr ''Please return to your productive work'')
      in case subprocess_run e (popup_argv arguments) 15 w of
           (Inr result, w') \<Rightarrow>
             (if returncode result = 0 then
                (text_reply (''Popup displayed successfully: '' @ [CHR 0x27] @ py_str title @
                   [CHR 0x27] @ '' - '' @ [CHR 0x27] @ py_str message @ [CHR 0x27]), w')
              else (text_reply (''Failed to display popup: '' @ stderr result), w'))
         | (Inl (TimeoutExpired cmd t), w') \<Rightarrow> (text_reply ''Popup display timed out'', w')
         | (Inl ex, w') \<Rightarrow> (text_reply (''Error displaying popup: '' @ str_exn ex), w'))"

text \<open>The dictionary literal \<^verbatim>\<open>log_entry\<close>, in the order of its keys.\<close>

definition log_entry :: "env \<Rightarrow> (string \<rightharpoonup> pyval) \<Rightarrow> (string \<times> pyval) list" where
  "log_entry e arguments =
     [(''timestamp'', PFloat (loop_time e)),
      (''activity'', dict_get arguments ''activity'' (PStr ''Unknown activity'')),
      (''productive'', dict_get arguments ''productive'' (PBool False)),
      (''app_name'', dict_get arguments ''app_name'' (PStr ''Unknown app''))]"

fun rstrip_slash :: "string \<Rightarrow> string" where
  "rstrip_slash s = rev (dropWhile (\<lambda>c. c = CHR ''/'') (rev s))"

text \<open>
  \<^verbatim>\<open>os.path.expanduser\<close> for a path that starts with \<^verbatim>\<open>~/\<close>, with the home
  directory taken from the environment.
\<close>

definition expanduser :: "env \<Rightarrow> string \<Rightarrow> string" where
  "expanduser e path =
     (if take 2 path = ''~/'' then rstrip_slash (home e) @ drop 1 path else path)"

definition log_dir :: "env \<Rightarrow> string" where
  "log_dir e = expanduser e ''~/Library/Logs/Cortex''"

definition log_path :: "env \<Rightarrow> string" where
  "log_path e = log_dir e @ ''/activity.log''"

text \<open>The bytes of a file; a file that is missing has none (appending starts from there).\<close>

definition contents :: "world \<Rightarrow> string \<Rightarrow> string" where
  "contents w path = (case files w path of None \<Rightarrow> [] | Some old \<Rightarrow> old)"

text \<open>
  The body of the \<^verbatim>\<open>try\<close> of \<^verbatim>\<open>log_activity\<close>: make the directory, open the file
  for appending (which creates it when it is missing) and write one line. A write
  that fails is taken to leave the contents as they were.
\<close>

definition write_log :: "env \<Rightarrow> (string \<times> pyval) list \<Rightarrow> world \<Rightarrow> (exn + unit) \<times> world" where
  "write_log e entry w =
     (case fault e of
        MakedirsFails m \<Rightarrow> (Inl (OtherError m), w)
      | OpenFails m \<Rightarrow> (Inl (OtherError m), w\<lparr>dirs := insert (log_dir e) (dirs w)\<rparr>)
      | WriteFails m \<Rightarrow>
          (Inl (OtherError m),
           w\<lparr>dirs := insert (log_dir e) (dirs w),
             files := (files w)(log_path e \<mapsto> contents w (log_path e))\<rparr>)
      | NoFault \<Rightarrow>
          (Inr (),
           w\<lparr>dirs := insert (log_dir e) (dirs w),
             files := (files w)(log_path e \<mapsto>
               contents w (log_path e) @ json_dumps entry @ ''\<newline>'')\<rparr>))"

definition log_activity :: "env \<Rightarrow> (string \<rightharpoonup> pyval) \<Rightarrow> world \<Rightarrow> TextContent list \<times> world" where
  "log_activity e arguments w =
     (let activity = dict_get arguments ''activity'' (PStr ''Unknown activity'');
          productive = dict_get arguments ''productive'' (PBool False);
          app_name = dict_get arguments ''app_name'' (PStr ''Unknown app'')
      in case write_log e (log_entry e arguments) w of
           (Inr u, w') \<Rightarrow>
             (text_reply (''Activity logged: '' @ py_str activity @ '' ('' @
                (if truthy productive then ''productive'' else ''unproductive'') @ '') in '' @
                py_str app_name), w')
         | (Inl ex, w') \<Rightarrow> (text_reply (''Failed to log activity: '' @ str_exn ex), w'))"

definition handle_call_tool ::
  "env \<Rightarrow> string \<Rightarrow> (string \<rightharpoonup> pyval) \<Rightarrow> world \<Rightarrow> TextContent list \<times> world" where
  "handle_call_tool e name arguments w =
     (if name = ''show_popup'' then show_popup e arguments w
      else if name = ''log_activity'' then log_activity e arguments w
      else (text_reply (''Unknown tool: '' @ name), w))"

subsection \<open>The advertised tools and the registered dispatch\<close>

text \<open>
  \<^verbatim>\<open>handle_list_tools\<close> advertises the two tools with their input schemas. Of a
  schema the keywords that decide validity are kept: the type and the enumeration of
  each property and the list of required properties (every schema has the type
  \<^verbatim>\<open>object\<close>; the descriptions say nothing about validity). The default of a property
  is an annotation: the validator does not fill it in.
\<close>

datatype json_type = JString | JBoolean

record property =
  prop_type :: json_type
  prop_enum :: "string list option"
  prop_default :: "string option"

record schema =
  properties :: "(string \<times> property) list"
  required :: "string list"

record Tool =
  tool_name :: string
  inputSchema :: schema

definition show_popup_schema :: schema where
  "show_popup_schema =
     \<lparr>properties =
        [(''title'', \<lparr>prop_type = JString, prop_enum = None, prop_default = None\<rparr>),
         (''message'', \<lparr>prop_type = JString, prop_enum = None, prop_default = None\<rparr>),
         (''severity'',
          \<lparr>prop_type = JString, prop_enum = Some [''info'', ''warning'', ''critical''],
           prop_default = Some ''warning''\<rparr>)],
      required = [''title'', ''message'']\<rparr>"

definition log_activity_schema :: schema where
  "log_activity_schema =
     \<lparr>properties =
        [(''activity'', \<lparr>prop_type = JString, prop_enum = None, prop_default = None\<rparr>),
         (''productive'', \<lparr>prop_type = JBoolean, prop_enum = None, prop_default = None\<rparr>),
         (''app_name'', \<lparr>prop_type = JString, prop_enum = None, prop_default = None\<rparr>)],
      required = [''activity'', ''productive'']\<rparr>"

definition handle_list_tools :: "Tool list" where
  "handle_list_tools =
     [\<lparr>tool_name = ''show_popup'', inputSchema = show_popup_schema\<rparr>,
      \<lparr>tool_name = ''log_activity'', inputSchema = log_activity_schema\<rparr>]"

text \<open>
  JSON Schema validation of the arguments, for these keywords: every required key is
  present, and every property that is present has the type of its schema and, where
  the schema enumerates values, is one of them. Keys outside the schema are allowed.
\<close>

fun type_ok :: "json_type \<Rightarrow> pyval \<Rightarrow> bool" where
  "type_ok JString (PStr s) = True"
| "type_ok JBoolean (PBool b) = True"
| "type_ok t v = False"

definition property_ok :: "property \<Rightarrow> pyval \<Rightarrow> bool" where
  "property_ok p v =
     (type_ok (prop_type p) v \<and>
      (case prop_enum p of None \<Rightarrow> True | Some choices \<Rightarrow> list_ex (\<lambda>c. v = PStr c) choices))"

definition present_ok :: "(string \<rightharpoonup> pyval) \<Rightarrow> string \<times> property \<Rightarrow> bool" where
  "present_ok arguments kp =
     (case arguments (fst kp) of None \<Rightarrow> True | Some v \<Rightarrow> property_ok (snd kp) v)"

definition valid_input :: "schema \<Rightarrow> (string \<rightharpoonup> pyval) \<Rightarrow> bool" where
  "valid_input s arguments =
     (list_all (\<lambda>key. arguments key \<noteq> None) (required s) \<and>
      list_all (present_ok arguments) (properties s))"

record CallToolResult =
  content :: "TextContent list"
  isError :: bool

text \<open>
  The dispatch that \<^verbatim>\<open>@server.call_tool()\<close> registers around \<^verbatim>\<open>handle_call_tool\<close>
  (input validation is on unless it is switched off, and the source does not switch it
  off): the arguments of an advertised tool are validated against its input schema,
  and a failure is answered with an error result before the handler runs; otherwise,
  and for a name that is not advertised, the handler runs and its texts are the
  content of a result that is not an error.
\<close>

definition validation_error :: "env \<Rightarrow> string \<Rightarrow> (string \<rightharpoonup> pyval) \<Rightarrow> CallToolResult" where
  "validation_error e name arguments =
     \<lparr>content = text_reply (''Input validation error: '' @ schema_message e name arguments),
      isError = True\<rparr>"

definition run_handler ::
  "env \<Rightarrow> string \<Rightarrow> (string \<rightharpoonup> pyval) \<Rightarrow> world \<Rightarrow> CallToolResult \<times> world" where
  "run_handler e name arguments w =
     (case handle_call_tool e name arguments w of
        (results, w') \<Rightarrow> (\<lparr>content = results, isError = False\<rparr>, w'))"

definition call_tool ::
  "env \<Rightarrow> string \<Rightarrow> (string \<rightharpoonup> pyval) \<Rightarrow> world \<Rightarrow> CallToolResult \<times> world" where
  "call_tool e name arguments w =
     (case find (\<lambda>t. tool_name t = name) handle_list_tools of
        None \<Rightarrow> run_handler e name arguments w
      | Some tool \<Rightarrow>
          (if valid_input (inputSchema tool) arguments then run_handler e name arguments w
           else (validation_error e name arguments, w)))"

section \<open>The screenshot server (\<^verbatim>\<open>mac_screenshot_server.py\<close>)\<close>

text \<open>
  A reply is either a response written by the handler (status, headers, body) or the
  error page that \<^verbatim>\<open>send_error\<close> produces for a status and a message. Writing to the
  client is taken to succeed.
\<close>

datatype http_out = Response nat "(string \<times> string) list" string | SendError nat string

fun status :: "http_out \<Rightarrow> nat" where
  "status (Response code hs body) = code"
| "status (SendError code msg) = code"

definition json_headers :: "(string \<times> string) list" where
  "json_headers = [(''Content-Type'', ''application/json''), (''Access-Control-Allow-Origin'', ''*'')]"

definition temp_filename :: "env \<Rightarrow> string" where
  "temp_filename e = ''/tmp/simulator_screenshot_'' @ strftime_compact (now e 0) @ ''.png''"

definition capture_argv :: "env \<Rightarrow> string list" where
  "capture_argv e = [''xcrun'', ''simctl'', ''io'', ''booted'', ''screenshot'', temp_filename e]"

text \<open>\<^verbatim>\<open>os.remove\<close> inside \<^verbatim>\<open>try: ... except: pass\<close>: a failure leaves the file and is ignored.\<close>

definition remove_quietly :: "env \<Rightarrow> string \<Rightarrow> world \<Rightarrow> world" where
  "remove_quietly e path w =
     (if remove_fails e path then w else w\<lparr>files := (files w)(path := None)\<rparr>)"

text \<open>The body of the \<^verbatim>\<open>try\<close> of \<^verbatim>\<open>handle_screenshot_request\<close>.\<close>

definition take_screenshot :: "env \<Rightarrow> world \<Rightarrow> (exn + http_out) \<times> world" where
  "take_screenshot e w =
     (case subprocess_run e (capture_argv e) 10 w of
        (Inl ex, w1) \<Rightarrow> (Inl ex, w1)
      | (Inr result, w1) \<Rightarrow>
          (if returncode result \<noteq> 0 then
             (Inl (RuntimeError (''Simulator screenshot failed: '' @ stderr result)), w1)
           else
             (case files w1 (temp_filename e) of
                None \<Rightarrow>
                  (Inl (OtherError (''[Errno 2] No such file or directory: '' @
                     repr_str (temp_filename e))), w1)
              | Some image_bytes \<Rightarrow>
                  (let b64_image = b64encode image_bytes;
                       w2 = remove_quietly e (temp_filename e) w1;
                       response_data =
                         [(''success'', PBool True), (''image'', PStr b64_image),
                          (''timestamp'', PStr (isoformat (now e 1)))]
                   in (Inr (Response 200 json_headers (json_dumps response_data)), w2)))))"

definition handle_screenshot_request :: "env \<Rightarrow> world \<Rightarrow> http_out \<times> world" where
  "handle_screenshot_request e w =
     (case take_screenshot e w of
        (Inr r, w') \<Rightarrow> (r, w')
      | (Inl ex, w') \<Rightarrow>
          (Response 500 json_headers
             (json_dumps [(''success'', PBool False), (''error'', PStr (str_exn ex))]), w'))"

definition handle_health_check :: "http_out" where
  "handle_health_check =
     Response 200 json_headers
       (json_dumps [(''status'', PStr ''healthy''), (''server'', PStr ''mac_screenshot_server'')])"

definition handle_hello_request :: "http_out" where
  "handle_hello_request =
     Response 200 json_headers (json_dumps [(''message'', PStr ''Hello from Mac!'')])"

definition do_GET :: "env \<Rightarrow> string \<Rightarrow> world \<Rightarrow> http_out \<times> world" where
  "do_GET e path w =
     (if path = ''/screenshot'' then handle_screenshot_request e w
      else if path = ''/health'' then (handle_health_check, w)
      else if path = ''/hello'' then (handle_hello_request, w)
      else (SendError 404 ''Not Found'', w))"



section \<open>Well-formed values and sample inputs\<close>

text \<open>
  The text of a float holds digits, a point, an exponent mark and signs, or spells
  \<^verbatim>\<open>nan\<close> or \<^verbatim>\<open>inf\<close>.
\<close>

definition float_text :: "string \<Rightarrow> bool" where
  "float_text r = (r \<noteq> [] \<and> list_all (\<lambda>c. c \<in> set ''0123456789.e+-infa'') r)"

fun well_formed :: "pyval \<Rightarrow> bool" where
  "well_formed (PFloat r) = float_text r"
| "well_formed v = True"

definition sample_time :: datetime where
  "sample_time =
     \<lparr>year = 2024, month = 1, day = 2, hour = 3, minute = 4, second = 5, microsecond = 0\<rparr>"

text \<open>An environment in which every command exits at once with code 0 and nothing fails.\<close>

definition calm_env :: env where
  "calm_env =
     \<lparr>behaviour = (\<lambda>argv. Exits 0 [] []), proc_writes = (\<lambda>argv. Map.empty),
      now = (\<lambda>n. sample_time), remove_fails = (\<lambda>path. False), loop_time = ''12.5'',
      home = ''/Users/dev'', fault = NoFault,
      schema_message = (\<lambda>name arguments. ''invalid arguments'')\<rparr>"

definition empty_world :: world where
  "empty_world = \<lparr>files = Map.empty, dirs = {}, events = [], calls = []\<rparr>"

text \<open>Ten bytes that start like a PNG file.\<close>

definition sample_png :: string where
  "sample_png =
     [CHR 0x89, CHR ''P'', CHR ''N'', CHR ''G'', CHR 0x0D, CHR 0x0A, CHR 0x1A, CHR 0x0A,
      CHR 0x00, CHR 0xFF]"

text \<open>The capture command writes the sample to the path it is given.\<close>

definition capture_env :: env where
  "capture_env =
     calm_env\<lparr>proc_writes :=
       (\<lambda>argv. [''/tmp/simulator_screenshot_20240102_030405.png'' \<mapsto> sample_png])\<rparr>"

text \<open>The same, on a system that refuses to remove files.\<close>

definition stuck_env :: env where
  "stuck_env = capture_env\<lparr>remove_fails := (\<lambda>path. True)\<rparr>"

text \<open>No simulator is booted: the capture command exits with code 1.\<close>

definition unbooted_env :: env where
  "unbooted_env = calm_env\<lparr>behaviour := (\<lambda>argv. Exits 1 [] ''No devices are booted.'')\<rparr>"




text \<open>The disk is full.\<close>

definition full_disk_env :: env where
  "full_disk_env = calm_env\<lparr>fault := WriteFails ''No space left on device''\<rparr>"

definition no_args :: "string \<rightharpoonup> pyval" where
  "no_args = Map.empty"

definition coding_args :: "string \<rightharpoonup> pyval" where
  "coding_args = [''activity'' \<mapsto> PStr ''coding'']"

definition browsing_args :: "string \<rightharpoonup> pyval" where
  "browsing_args =
     [''activity'' \<mapsto> PStr ''browsing'', ''productive'' \<mapsto> PBool False,
      ''app_name'' \<mapsto> PStr ''Safari'']"

definition critical_args :: "string \<rightharpoonup> pyval" where
  "critical_args =
     [''title'' \<mapsto> PStr ''Alert'', ''message'' \<mapsto> PStr ''Back to work'',
      ''severity'' \<mapsto> PStr ''critical'']"

definition plain_args :: "string \<rightharpoonup> pyval" where
  "plain_args = [''title'' \<mapsto> PStr ''Alert'', ''message'' \<mapsto> PStr ''Back to work'']"

definition bogus_args :: "string \<rightharpoonup> pyval" where
  "bogus_args =
     [''title'' \<mapsto> PStr ''Alert'', ''message'' \<mapsto> PStr ''Back to work'',
      ''severity'' \<mapsto> PStr ''bogus'']"

section \<open>Base64 round trip\<close>

lemma b64idx_b64chr: "i < 64 \<Longrightarrow> b64idx (b64chr i) = Some i"
  unfolding b64idx_def b64chr_def Let_def
  by (auto simp: of_char_of)

lemma of_char_b64chr:
  "(of_char (b64chr i) :: nat) =
     (if i < 26 then 65 + i else if i < 52 then 71 + i else if i < 62 then i - 4
      else if i = 62 then 43 else 47)"
  unfolding b64chr_def by (auto simp: of_char_of)

lemma b64chr_not_pad: "b64chr i \<noteq> CHR ''=''"
proof
  assume "b64chr i = CHR ''=''"
  then have "(of_char (b64chr i) :: nat) = 61" by simp
  then show False by (simp add: of_char_b64chr split: if_splits)
qed

lemma b64chr_ascii: "(of_char (b64chr i) :: nat) < 128"
  by (simp add: of_char_b64chr) arith

lemma b64encode_ascii: "list_all (\<lambda>c. (of_char c :: nat) < 128) (b64encode bs)"
  by (induction bs rule: b64encode.induct) (simp_all add: Let_def b64chr_ascii)

lemma a2b_base64_sextet:
  assumes "i < 64"
  shows "a2b_base64 (b64chr i # rest) quad_pos leftchar pads out =
     (if quad_pos = 0 then a2b_base64 rest 1 i 0 out
      else if quad_pos = 1 then
        a2b_base64 rest 2 (i mod 16) 0 (out @ [char_of (leftchar * 4 + i div 16)])
      else if quad_pos = 2 then
        a2b_base64 rest 3 (i mod 4) 0 (out @ [char_of (leftchar * 16 + i div 4)])
      else a2b_base64 rest 0 0 0 (out @ [char_of (leftchar * 64 + i)]))"
  using assms by (simp add: b64idx_b64chr b64chr_not_pad)

lemma a2b_base64_pos0:
  "i < 64 \<Longrightarrow> a2b_base64 (b64chr i # rest) 0 leftchar pads out = a2b_base64 rest 1 i 0 out"
  by (simp add: a2b_base64_sextet del: a2b_base64.simps)

lemma a2b_base64_pos1:
  "i < 64 \<Longrightarrow> a2b_base64 (b64chr i # rest) 1 leftchar pads out =
     a2b_base64 rest 2 (i mod 16) 0 (out @ [char_of (leftchar * 4 + i div 16)])"
  by (simp add: a2b_base64_sextet del: a2b_base64.simps)

lemma a2b_base64_pos2:
  "i < 64 \<Longrightarrow> a2b_base64 (b64chr i # rest) 2 leftchar pads out =
     a2b_base64 rest 3 (i mod 4) 0 (out @ [char_of (leftchar * 16 + i div 4)])"
  by (simp add: a2b_base64_sextet del: a2b_base64.simps)

lemma a2b_base64_pos3:
  "i < 64 \<Longrightarrow> a2b_base64 (b64chr i # rest) 3 leftchar pads out =
     a2b_base64 rest 0 0 0 (out @ [char_of (leftchar * 64 + i)])"
  by (simp add: a2b_base64_sextet del: a2b_base64.simps)

text \<open>Three bytes make four characters, and the decoder gives the three bytes back.\<close>

lemma a2b_base64_triple:
  fixes a b c :: char
  defines "x \<equiv> (of_char a :: nat)" and "y \<equiv> (of_char b :: nat)" and "z \<equiv> (of_char c :: nat)"
  shows "a2b_base64 (b64chr (x div 4) # b64chr (x mod 4 * 16 + y div 16) #
       b64chr (y mod 16 * 4 + z div 64) # b64chr (z mod 64) # rest) 0 0 0 out
     = a2b_base64 rest 0 0 0 (out @ [a, b, c])"
proof -
  have bx: "x < 256" and bY: "y < 256" and bz: "z < 256"
    by (simp_all add: x_def y_def z_def)
  have hy: "y div 16 < 16" using bY by simp
  have hz: "z div 64 < 4" using bz by simp
  have mx: "x mod 4 < 4" and my: "y mod 16 < 16" by simp_all
  have s0: "x div 4 < 64" using bx by simp
  have s1: "x mod 4 * 16 + y div 16 < 64" using hy mx by linarith
  have s2: "y mod 16 * 4 + z div 64 < 64" using hz my by linarith
  have s3: "z mod 64 < 64" by simp
  have d1: "(x mod 4 * 16 + y div 16) div 16 = x mod 4" using hy by simp
  have l1: "(x mod 4 * 16 + y div 16) mod 16 = y div 16" using hy by simp
  have d2: "(y mod 16 * 4 + z div 64) div 4 = y mod 16" using hz by simp
  have l2: "(y mod 16 * 4 + z div 64) mod 4 = z div 64" using hz by simp
  have e1: "x div 4 * 4 + (x mod 4 * 16 + y div 16) div 16 = x" by (simp add: d1)
  have e2: "y div 16 * 16 + (y mod 16 * 4 + z div 64) div 4 = y" by (simp add: d2)
  have e3: "z div 64 * 64 + z mod 64 = z" by simp
  have ca: "char_of x = a" and cb: "char_of y = b" and cc: "char_of z = c"
    by (simp_all add: x_def y_def z_def)
  have "a2b_base64 (b64chr (x div 4) # b64chr (x mod 4 * 16 + y div 16) #
       b64chr (y mod 16 * 4 + z div 64) # b64chr (z mod 64) # rest) 0 0 0 out
     = a2b_base64 (b64chr (x mod 4 * 16 + y div 16) #
       b64chr (y mod 16 * 4 + z div 64) # b64chr (z mod 64) # rest) 1 (x div 4) 0 out"
    by (rule a2b_base64_pos0 [OF s0])
  also have "\<dots> = a2b_base64 (b64chr (y mod 16 * 4 + z div 64) # b64chr (z mod 64) # rest)
       2 (y div 16) 0 (out @ [a])"
    by (simp only: a2b_base64_pos1 [OF s1] e1 l1 ca)
  also have "\<dots> = a2b_base64 (b64chr (z mod 64) # rest) 3 (z div 64) 0 (out @ [a, b])"
    by (simp only: a2b_base64_pos2 [OF s2] e2 l2 cb append_assoc append_Cons append_Nil)
  also have "\<dots> = a2b_base64 rest 0 0 0 (out @ [a, b, c])"
    by (simp only: a2b_base64_pos3 [OF s3] e3 cc append_assoc append_Cons append_Nil)
  finally show ?thesis .
qed

text \<open>A last single byte: two characters and two pads.\<close>

lemma a2b_base64_single:
  fixes a :: char
  defines "x \<equiv> (of_char a :: nat)"
  shows "a2b_base64 [b64chr (x div 4), b64chr (x mod 4 * 16), CHR ''='', CHR ''=''] 0 0 0 out
     = Inr (out @ [a])"
proof -
  have bx: "x < 256" by (simp add: x_def)
  have s0: "x div 4 < 64" using bx by simp
  have mx: "x mod 4 < 4" by simp
  have s1: "x mod 4 * 16 < 64" using mx by linarith
  have e1: "x div 4 * 4 + (x mod 4 * 16) div 16 = x" by simp
  have ca: "char_of x = a" by (simp add: x_def)
  have "a2b_base64 [b64chr (x div 4), b64chr (x mod 4 * 16), CHR ''='', CHR ''=''] 0 0 0 out
     = a2b_base64 [b64chr (x mod 4 * 16), CHR ''='', CHR ''=''] 1 (x div 4) 0 out"
    by (rule a2b_base64_pos0 [OF s0])
  also have "\<dots> = a2b_base64 [CHR ''='', CHR ''=''] 2 (x mod 4 * 16 mod 16) 0 (out @ [a])"
    by (simp only: a2b_base64_pos1 [OF s1] e1 ca)
  also have "\<dots> = Inr (out @ [a])"
    by simp
  finally show ?thesis .
qed

text \<open>Two last bytes: three characters and one pad.\<close>

lemma a2b_base64_pair:
  fixes a b :: char
  defines "x \<equiv> (of_char a :: nat)" and "y \<equiv> (of_char b :: nat)"
  shows "a2b_base64 [b64chr (x div 4), b64chr (x mod 4 * 16 + y div 16),
       b64chr (y mod 16 * 4), CHR ''=''] 0 0 0 out = Inr (out @ [a, b])"
proof -
  have bx: "x < 256" and bY: "y < 256" by (simp_all add: x_def y_def)
  have hy: "y div 16 < 16" using bY by simp
  have mx: "x mod 4 < 4" and my: "y mod 16 < 16" by simp_all
  have s0: "x div 4 < 64" using bx by simp
  have s1: "x mod 4 * 16 + y div 16 < 64" using hy mx by linarith
  have s2: "y mod 16 * 4 < 64" using my by linarith
  have d1: "(x mod 4 * 16 + y div 16) div 16 = x mod 4" using hy by simp
  have l1: "(x mod 4 * 16 + y div 16) mod 16 = y div 16" using hy by simp
  have e1: "x div 4 * 4 + (x mod 4 * 16 + y div 16) div 16 = x" by (simp add: d1)
  have e2: "y div 16 * 16 + (y mod 16 * 4) div 4 = y" by simp
  have ca: "char_of x = a" and cb: "char_of y = b" by (simp_all add: x_def y_def)
  have "a2b_base64 [b64chr (x div 4), b64chr (x mod 4 * 16 + y div 16),
       b64chr (y mod 16 * 4), CHR ''=''] 0 0 0 out
     = a2b_base64 [b64chr (x mod 4 * 16 + y div 16), b64chr (y mod 16 * 4), CHR ''='']
         1 (x div 4) 0 out"
    by (rule a2b_base64_pos0 [OF s0])
  also have "\<dots> = a2b_base64 [b64chr (y mod 16 * 4), CHR ''=''] 2 (y div 16) 0 (out @ [a])"
    by (simp only: a2b_base64_pos1 [OF s1] e1 l1 ca)
  also have "\<dots> = a2b_base64 [CHR ''=''] 3 (y mod 16 * 4 mod 4) 0 (out @ [a, b])"
    by (simp only: a2b_base64_pos2 [OF s2] e2 cb append_assoc append_Cons append_Nil)
  also have "\<dots> = Inr (out @ [a, b])"
    by simp
  finally show ?thesis .
qed

lemma a2b_base64_b64encode: "a2b_base64 (b64encode bs) 0 0 0 out = Inr (out @ bs)"
proof (induction bs arbitrary: out rule: b64encode.induct)
  case 1
  show ?case by simp
next
  case (2 a)
  show ?case
    using a2b_base64_single [of a out] by (simp only: b64encode.simps Let_def)
next
  case (3 a b)
  show ?case
    using a2b_base64_pair [of a b out] by (simp only: b64encode.simps Let_def)
next
  case (4 a b c rest)
  have "a2b_base64 (b64encode (a # b # c # rest)) 0 0 0 out
        = a2b_base64 (b64encode rest) 0 0 0 (out @ [a, b, c])"
    using a2b_base64_triple [of a b c "b64encode rest" out]
    by (simp only: b64encode.simps Let_def append_Cons append_Nil)
  also have "\<dots> = Inr ((out @ [a, b, c]) @ rest)" by (rule "4.IH")
  finally show ?case by simp
qed

text \<open>
  C8. Encoding any sequence of bytes to base64 text and decoding that text gives
  back the same bytes, byte for byte.
\<close>

theorem b64_round_trip: "b64decode (b64encode image_bytes) = Inr image_bytes"
proof -
  have "list_all (\<lambda>c. (of_char c :: nat) < 128) (b64encode image_bytes)"
    by (rule b64encode_ascii)
  then have "b64decode (b64encode image_bytes) = a2b_base64 (b64encode image_bytes) 0 0 0 []"
    by (simp add: b64decode_def)
  also have "\<dots> = Inr ([] @ image_bytes)"
    by (rule a2b_base64_b64encode)
  finally show ?thesis by simp
qed

section \<open>Unknown tool names\<close>

text \<open>
  C2. For a tool name other than \<^verbatim>\<open>show_popup\<close> and \<^verbatim>\<open>log_activity\<close> the handler
  answers with the single text \<^verbatim>\<open>Unknown tool: <name>\<close> and leaves the world as it
  was: no process is started and no file is written.
\<close>

theorem unknown_tool_reply:
  assumes "name \<noteq> ''show_popup''" and "name \<noteq> ''log_activity''"
  shows "handle_call_tool e name arguments w = (text_reply (''Unknown tool: '' @ name), w)"
  using assms by (simp add: handle_call_tool_def)

theorem unknown_tool_reply_witness:
  "''delete_files'' \<noteq> ''show_popup'' \<and> ''delete_files'' \<noteq> ''log_activity'' \<and>
   handle_call_tool calm_env ''delete_files'' browsing_args empty_world =
     (text_reply ''Unknown tool: delete_files'', empty_world)"
  using unknown_tool_reply [of "''delete_files''" calm_env browsing_args empty_world]
  by simp

section \<open>Decimal text and the ISO 8601 format\<close>

lemma is_digit_digit_char: "n < 10 \<Longrightarrow> is_digit (digit_char n)"
  by (simp add: is_digit_def digit_char_def of_char_of)

lemma digits_nat_dec: "list_all is_digit (nat_dec n)"
proof (induction n rule: nat_dec.induct)
  case (1 n)
  show ?case
  proof (cases "n < 10")
    case True
    then show ?thesis by (subst nat_dec.simps) (simp add: is_digit_digit_char)
  next
    case False
    then have "list_all is_digit (nat_dec (n div 10))" by (rule "1.IH")
    with False show ?thesis by (subst nat_dec.simps) (simp add: is_digit_digit_char)
  qed
qed

lemma length_nat_dec: "0 < k \<Longrightarrow> n < 10 ^ k \<Longrightarrow> length (nat_dec n) \<le> k"
proof (induction n arbitrary: k rule: nat_dec.induct)
  case (1 n)
  show ?case
  proof (cases "n < 10")
    case True
    with "1.prems" show ?thesis by (subst nat_dec.simps) simp
  next
    case False
    with "1.prems" obtain j where k: "k = Suc j" and j: "0 < j"
      by (cases k; cases "k - 1") auto
    from "1.prems" k have "n div 10 < 10 ^ j"
      by (simp add: less_mult_imp_div_less mult.commute)
    with False j have "length (nat_dec (n div 10)) \<le> j" by (rule "1.IH")
    with False k show ?thesis by (subst nat_dec.simps) simp
  qed
qed

lemma length_zpad: "0 < k \<Longrightarrow> n < 10 ^ k \<Longrightarrow> length (zpad k n) = k"
  using length_nat_dec [of k n] by (simp add: zpad_def)

lemma is_digit_zero: "is_digit CHR ''0''"
  by (simp add: is_digit_def)

lemma digits_zpad: "list_all is_digit (zpad k n)"
  using digits_nat_dec [of n] by (auto simp: zpad_def list_all_iff is_digit_zero)

lemma take_digits_append:
  "list_all is_digit ds \<Longrightarrow> take_digits (length ds) (ds @ rest) = Some rest"
  by (induction ds) simp_all

lemma take_digits_zpad:
  "0 < k \<Longrightarrow> n < 10 ^ k \<Longrightarrow> take_digits k (zpad k n @ rest) = Some rest"
  using take_digits_append [of "zpad k n" rest] by (simp add: length_zpad digits_zpad)

lemma take_digits_zpad2: "n < 100 \<Longrightarrow> take_digits 2 (zpad 2 n @ rest) = Some rest"
  using take_digits_zpad [of 2 n rest] by simp

lemma take_digits_zpad4: "n < 10000 \<Longrightarrow> take_digits 4 (zpad 4 n @ rest) = Some rest"
  using take_digits_zpad [of 4 n rest] by simp

lemma take_digits_zpad6: "n < 1000000 \<Longrightarrow> take_digits 6 (zpad 6 n) = Some []"
  using take_digits_zpad [of 6 n "[]"] by simp

lemma iso8601_isoformat:
  assumes "valid_datetime d"
  shows "is_iso8601 (isoformat d)"
proof -
  from assms have y: "year d < 10000" and mo: "month d < 100" and da: "day d < 100"
    and h: "hour d < 100" and mi: "minute d < 100" and s: "second d < 100"
    and us: "microsecond d < 1000000"
    by (simp_all add: valid_datetime_def)
  have "iso8601_seconds (isoformat d) =
      Some (if microsecond d = 0 then [] else ''.'' @ zpad 6 (microsecond d))"
    unfolding iso8601_seconds_def isoformat_def
    using y mo da h mi s
    by (simp add: take_digits_zpad2 take_digits_zpad4)
  then show ?thesis
    using us by (simp add: is_iso8601_def take_digits_zpad6)
qed

section \<open>The screenshot request\<close>

lemma json_dumps_failure:
  \<open>json_dumps [(''success'', PBool False), (''error'', PStr m)] =
   ''{"success": false, "error": '' @ json_str m @ ''}''\<close>
  by (simp add: json_dumps_def json_item_def json_str_def escape_char_def)

text \<open>
  C4. When the capture command exits with a code other than 0, a GET of
  \<^verbatim>\<open>/screenshot\<close> is answered with status 500 and the JSON body of the dictionary
  with \<^verbatim>\<open>success\<close> false and \<^verbatim>\<open>error\<close> the text \<^verbatim>\<open>Simulator screenshot failed: \<close>
  followed by the command's stderr. The raised error is turned into this reply; the
  handler returns a reply in every case.
\<close>

theorem capture_failure_is_500:
  assumes "behaviour e (capture_argv e) = Exits rc out err" and "rc \<noteq> 0"
  shows \<open>fst (do_GET e ''/screenshot'' w) =
     Response 500 json_headers
       (json_dumps [(''success'', PBool False),
                    (''error'', PStr (''Simulator screenshot failed: '' @ err))]) \<and>
     json_dumps [(''success'', PBool False),
                 (''error'', PStr (''Simulator screenshot failed: '' @ err))] =
       ''{"success": false, "error": '' @ json_str (''Simulator screenshot failed: '' @ err) @ ''}'' \<and>
     events (snd (do_GET e ''/screenshot'' w)) = events w @ [Started (capture_argv e)]\<close>
proof -
  from assms have "take_screenshot e w =
      (Inl (RuntimeError (''Simulator screenshot failed: '' @ err)),
       w\<lparr>files := files w ++ proc_writes e (capture_argv e),
         events := events w @ [Started (capture_argv e)],
         calls := calls w @ [(capture_argv e, 10)]\<rparr>)"
    by (simp add: take_screenshot_def subprocess_run_def)
  then have "handle_screenshot_request e w =
      (Response 500 json_headers
         (json_dumps [(''success'', PBool False),
                      (''error'', PStr (''Simulator screenshot failed: '' @ err))]),
       w\<lparr>files := files w ++ proc_writes e (capture_argv e),
         events := events w @ [Started (capture_argv e)],
         calls := calls w @ [(capture_argv e, 10)]\<rparr>)"
    by (simp add: handle_screenshot_request_def)
  then show ?thesis
    by (simp add: do_GET_def json_dumps_failure)
qed

text \<open>The same at a concrete failure: no simulator is booted.\<close>

theorem capture_failure_is_500_witness:
  \<open>behaviour unbooted_env (capture_argv unbooted_env) = Exits 1 [] ''No devices are booted.'' \<and>
   (1::int) \<noteq> 0 \<and>
   fst (do_GET unbooted_env ''/screenshot'' empty_world) =
     Response 500 json_headers
       ''{"success": false, "error": "Simulator screenshot failed: No devices are booted."}''\<close>
  using capture_failure_is_500 [of unbooted_env 1 "[]" "''No devices are booted.''" empty_world]
  by (simp add: unbooted_env_def calm_env_def json_dumps_def json_item_def json_str_def escape_char_def)

lemma screenshot_exit0:
  assumes "behaviour e (capture_argv e) = Exits 0 out err"
    and "proc_writes e (capture_argv e) (temp_filename e) = Some image_bytes"
  shows "handle_screenshot_request e w =
       (Response 200 json_headers
         (json_dumps [(''success'', PBool True), (''image'', PStr (b64encode image_bytes)),
                      (''timestamp'', PStr (isoformat (now e 1)))]),
        remove_quietly e (temp_filename e)
          (w\<lparr>files := files w ++ proc_writes e (capture_argv e),
             events := events w @ [Started (capture_argv e)],
             calls := calls w @ [(capture_argv e, 10)]\<rparr>))"
  using assms
  by (simp add: handle_screenshot_request_def take_screenshot_def subprocess_run_def Let_def)

text \<open>
  C3, amended. When the capture command exits 0 and has written the bytes to the
  destination path, the reply has status 200 and carries the JSON of \<^verbatim>\<open>success\<close> true,
  \<^verbatim>\<open>image\<close> the base64 text of those bytes (which decodes to exactly those bytes) and
  \<^verbatim>\<open>timestamp\<close> an ISO 8601 text. Afterwards the temporary file is gone when its
  removal succeeds; when the removal fails, the failure is ignored and the file stays.
\<close>

theorem screenshot_success:
  assumes "behaviour e (capture_argv e) = Exits 0 out err"
    and "proc_writes e (capture_argv e) (temp_filename e) = Some image_bytes"
    and "valid_datetime (now e 1)"
  shows "fst (do_GET e ''/screenshot'' w) =
       Response 200 json_headers
         (json_dumps [(''success'', PBool True), (''image'', PStr (b64encode image_bytes)),
                      (''timestamp'', PStr (isoformat (now e 1)))]) \<and>
     b64decode (b64encode image_bytes) = Inr image_bytes \<and>
     is_iso8601 (isoformat (now e 1)) \<and>
     files (snd (do_GET e ''/screenshot'' w)) (temp_filename e) =
       (if remove_fails e (temp_filename e) then Some image_bytes else None)"
proof -
  from assms(1,2) have reply: "handle_screenshot_request e w =
       (Response 200 json_headers
         (json_dumps [(''success'', PBool True), (''image'', PStr (b64encode image_bytes)),
                      (''timestamp'', PStr (isoformat (now e 1)))]),
        remove_quietly e (temp_filename e)
          (w\<lparr>files := files w ++ proc_writes e (capture_argv e),
             events := events w @ [Started (capture_argv e)],
             calls := calls w @ [(capture_argv e, 10)]\<rparr>))"
    by (rule screenshot_exit0)
  have "list_all (\<lambda>c. (of_char c :: nat) < 128) (b64encode image_bytes)"
    by (rule b64encode_ascii)
  then have "b64decode (b64encode image_bytes) = a2b_base64 (b64encode image_bytes) 0 0 0 []"
    by (simp add: b64decode_def)
  then have decoded: "b64decode (b64encode image_bytes) = Inr image_bytes"
    by (simp add: a2b_base64_b64encode)
  from assms(3) have iso: "is_iso8601 (isoformat (now e 1))"
    by (rule iso8601_isoformat)
  from assms(2) have after: "files (snd (handle_screenshot_request e w)) (temp_filename e) =
       (if remove_fails e (temp_filename e) then Some image_bytes else None)"
    by (simp add: reply remove_quietly_def)
  from reply decoded iso after show ?thesis
    by (simp add: do_GET_def)
qed

lemma temp_filename_capture: "temp_filename capture_env = ''/tmp/simulator_screenshot_20240102_030405.png''"
  by code_simp

lemma temp_filename_stuck: "temp_filename stuck_env = ''/tmp/simulator_screenshot_20240102_030405.png''"
  by code_simp

text \<open>
  C3, as stated, fails where the file cannot be removed: the capture exits 0 and has
  written ten bytes, the reply is a success, and the temporary file is still there.
\<close>

theorem screenshot_file_may_remain:
  "behaviour stuck_env (capture_argv stuck_env) = Exits 0 [] [] \<and>
   proc_writes stuck_env (capture_argv stuck_env) (temp_filename stuck_env) = Some sample_png \<and>
   status (fst (do_GET stuck_env ''/screenshot'' empty_world)) = 200 \<and>
   files (snd (do_GET stuck_env ''/screenshot'' empty_world)) (temp_filename stuck_env) =
     Some sample_png"
proof -
  have b: "behaviour stuck_env (capture_argv stuck_env) = Exits 0 [] []"
    by (simp add: stuck_env_def capture_env_def calm_env_def)
  have p: "proc_writes stuck_env (capture_argv stuck_env) (temp_filename stuck_env) = Some sample_png"
    by (simp add: temp_filename_stuck) (simp add: stuck_env_def capture_env_def)
  have r: "remove_fails stuck_env (temp_filename stuck_env)"
    by (simp add: stuck_env_def)
  show ?thesis
    using b p r screenshot_exit0 [OF b p, of empty_world]
    by (simp add: do_GET_def remove_quietly_def)
qed

lemma sample_valid: "valid_datetime (now capture_env 1)"
  by (simp add: capture_env_def calm_env_def sample_time_def valid_datetime_def)

lemma sample_iso: "isoformat (now capture_env 1) = ''2024-01-02T03:04:05''"
  by code_simp

lemma sample_b64: "b64encode sample_png = ''iVBORw0KGgoA/w==''"
  by (simp add: sample_png_def b64chr_def Let_def char_of_eq_iff)

lemma sample_body:
  \<open>json_dumps [(''success'', PBool True), (''image'', PStr ''iVBORw0KGgoA/w==''),
      (''timestamp'', PStr ''2024-01-02T03:04:05'')] =
   ''{"success": true, "image": "iVBORw0KGgoA/w==", "timestamp": "2024-01-02T03:04:05"}''\<close>
  by (simp add: json_dumps_def json_item_def json_str_def escape_char_def)

text \<open>The amended statement at the ten sample bytes.\<close>

theorem screenshot_success_witness:
  \<open>behaviour capture_env (capture_argv capture_env) = Exits 0 [] [] \<and>
   proc_writes capture_env (capture_argv capture_env) (temp_filename capture_env) =
     Some sample_png \<and>
   valid_datetime (now capture_env 1) \<and>
   fst (do_GET capture_env ''/screenshot'' empty_world) =
     Response 200 json_headers
       ''{"success": true, "image": "iVBORw0KGgoA/w==", "timestamp": "2024-01-02T03:04:05"}'' \<and>
   b64decode ''iVBORw0KGgoA/w=='' = Inr sample_png \<and>
   length sample_png = 10 \<and>
   is_iso8601 ''2024-01-02T03:04:05'' \<and>
   files (snd (do_GET capture_env ''/screenshot'' empty_world)) (temp_filename capture_env) = None\<close>
proof -
  have b: "behaviour capture_env (capture_argv capture_env) = Exits 0 [] []"
    by (simp add: capture_env_def calm_env_def)
  have p: "proc_writes capture_env (capture_argv capture_env) (temp_filename capture_env) =
      Some sample_png"
    by (simp add: temp_filename_capture) (simp add: capture_env_def)
  have r: "\<not> remove_fails capture_env (temp_filename capture_env)"
    by (simp add: capture_env_def calm_env_def)
  have l: "length sample_png = 10"
    by (simp add: sample_png_def)
  show ?thesis
    using screenshot_success [OF b p sample_valid, of empty_world] b p r l sample_valid
    by (simp only: sample_body sample_iso sample_b64 if_False simp_thms)
qed

section \<open>Paths of the screenshot server\<close>





section \<open>The registered dispatch: missing and malformed arguments\<close>

lemma find_show_popup:
  "find (\<lambda>t. tool_name t = ''show_popup'') handle_list_tools =
     Some \<lparr>tool_name = ''show_popup'', inputSchema = show_popup_schema\<rparr>"
  by (simp add: handle_list_tools_def)

lemma find_log_activity:
  "find (\<lambda>t. tool_name t = ''log_activity'') handle_list_tools =
     Some \<lparr>tool_name = ''log_activity'', inputSchema = log_activity_schema\<rparr>"
  by (simp add: handle_list_tools_def)

lemma call_show_popup:
  "call_tool e ''show_popup'' arguments w =
     (if valid_input show_popup_schema arguments then run_handler e ''show_popup'' arguments w
      else (validation_error e ''show_popup'' arguments, w))"
  by (simp add: call_tool_def find_show_popup)

lemma call_log_activity:
  "call_tool e ''log_activity'' arguments w =
     (if valid_input log_activity_schema arguments then run_handler e ''log_activity'' arguments w
      else (validation_error e ''log_activity'' arguments, w))"
  by (simp add: call_tool_def find_log_activity)

lemma valid_show_popup:
  "valid_input show_popup_schema arguments =
     (arguments ''title'' \<noteq> None \<and> arguments ''message'' \<noteq> None \<and>
      present_ok arguments (''title'', \<lparr>prop_type = JString, prop_enum = None, prop_default = None\<rparr>) \<and>
      present_ok arguments (''message'', \<lparr>prop_type = JString, prop_enum = None, prop_default = None\<rparr>) \<and>
      present_ok arguments (''severity'',
        \<lparr>prop_type = JString, prop_enum = Some [''info'', ''warning'', ''critical''],
         prop_default = Some ''warning''\<rparr>))"
  by (simp add: valid_input_def show_popup_schema_def)

lemma valid_log_activity:
  "valid_input log_activity_schema arguments \<Longrightarrow>
     arguments ''activity'' \<noteq> None \<and> arguments ''productive'' \<noteq> None"
  by (simp add: valid_input_def log_activity_schema_def)

lemma severity_checked:
  assumes "valid_input show_popup_schema arguments" and "arguments ''severity'' = Some v"
  shows "v = PStr ''info'' \<or> v = PStr ''warning'' \<or> v = PStr ''critical''"
  using assms by (simp add: valid_show_popup present_ok_def property_ok_def)

text \<open>
  C1. When \<^verbatim>\<open>show_popup\<close> is called without \<^verbatim>\<open>title\<close> or without \<^verbatim>\<open>message\<close>, or
  \<^verbatim>\<open>log_activity\<close> without \<^verbatim>\<open>activity\<close> or without \<^verbatim>\<open>productive\<close>, the registered
  dispatch answers with an error result whose text starts with
  \<^verbatim>\<open>Input validation error: \<close>, and the world is as before: no process is started and
  \<^verbatim>\<open>subprocess.run\<close> is not called.
\<close>

theorem missing_required_is_rejected:
  assumes "name = ''show_popup'' \<and> (arguments ''title'' = None \<or> arguments ''message'' = None) \<or>
           name = ''log_activity'' \<and> (arguments ''activity'' = None \<or> arguments ''productive'' = None)"
  shows "call_tool e name arguments w =
       (\<lparr>content = text_reply (''Input validation error: '' @ schema_message e name arguments),
         isError = True\<rparr>, w) \<and>
     events (snd (call_tool e name arguments w)) = events w \<and>
     calls (snd (call_tool e name arguments w)) = calls w"
proof -
  have "call_tool e name arguments w = (validation_error e name arguments, w)"
  proof (cases "name = ''show_popup''")
    case True
    with assms have "arguments ''title'' = None \<or> arguments ''message'' = None"
      by simp
    then have "\<not> valid_input show_popup_schema arguments"
      by (auto simp: valid_show_popup)
    with True show ?thesis by (simp add: call_show_popup)
  next
    case False
    with assms have name: "name = ''log_activity''"
      and "arguments ''activity'' = None \<or> arguments ''productive'' = None"
      by simp_all
    then have "\<not> valid_input log_activity_schema arguments"
      by (auto dest: valid_log_activity)
    with name show ?thesis by (simp add: call_log_activity)
  qed
  then show ?thesis by (simp add: validation_error_def)
qed

text \<open>A call with no arguments, and a call that gives only the activity.\<close>

theorem missing_required_is_rejected_witness:
  "no_args ''title'' = None \<and>
   call_tool calm_env ''show_popup'' no_args empty_world =
     (\<lparr>content = text_reply ''Input validation error: invalid arguments'', isError = True\<rparr>,
      empty_world) \<and>
   calls (snd (call_tool calm_env ''show_popup'' no_args empty_world)) = [] \<and>
   coding_args ''productive'' = None \<and>
   call_tool calm_env ''log_activity'' coding_args empty_world =
     (\<lparr>content = text_reply ''Input validation error: invalid arguments'', isError = True\<rparr>,
      empty_world) \<and>
   events (snd (call_tool calm_env ''log_activity'' coding_args empty_world)) = []"
proof -
  have n: "no_args ''title'' = None" and c: "coding_args ''productive'' = None"
    by (simp_all add: no_args_def coding_args_def)
  have m: "schema_message calm_env name arguments = ''invalid arguments''" for name arguments
    by (simp add: calm_env_def)
  have w: "events empty_world = []" "calls empty_world = []"
    by (simp_all add: empty_world_def)
  show ?thesis
    using missing_required_is_rejected [of "''show_popup''" no_args calm_env empty_world]
      missing_required_is_rejected [of "''log_activity''" coding_args calm_env empty_world]
    by (simp add: n c m w)
qed

section \<open>The alert command\<close>

lemma show_popup_by_behaviour:
  "show_popup e arguments w =
     (case behaviour e (popup_argv arguments) of
        Exits rc out err \<Rightarrow>
          (if rc = 0 then
             text_reply (''Popup displayed successfully: '' @ [CHR 0x27] @
               py_str (dict_get arguments ''title'' (PStr ''Productivity Alert'')) @ [CHR 0x27] @
               '' - '' @ [CHR 0x27] @
               py_str (dict_get arguments ''message'' (PStr ''Please return to your productive work'')) @
               [CHR 0x27])
           else text_reply (''Failed to display popup: '' @ err),
           w\<lparr>files := files w ++ proc_writes e (popup_argv arguments),
             events := events w @ [Started (popup_argv arguments)],
             calls := calls w @ [(popup_argv arguments, 15)]\<rparr>)
      | Hangs \<Rightarrow>
          (text_reply ''Popup display timed out'',
           w\<lparr>files := files w ++ proc_writes e (popup_argv arguments),
             events := events w @ [Started (popup_argv arguments), Killed (popup_argv arguments)],
             calls := calls w @ [(popup_argv arguments, 15)]\<rparr>)
      | Breaks m \<Rightarrow>
          (text_reply (''Error displaying popup: '' @ m),
           w\<lparr>files := files w ++ proc_writes e (popup_argv arguments),
             events := events w @ [Started (popup_argv arguments), Killed (popup_argv arguments)],
             calls := calls w @ [(popup_argv arguments, 15)]\<rparr>)
      | FailsToStart m \<Rightarrow>
          (text_reply (''Error displaying popup: '' @ m),
           w\<lparr>calls := calls w @ [(popup_argv arguments, 15)]\<rparr>))"
  by (simp add: show_popup_def subprocess_run_def Let_def split: proc_behaviour.split)

lemma show_popup_calls:
  "calls (snd (show_popup e arguments w)) = calls w @ [(popup_argv arguments, 15)]"
  by (simp add: show_popup_by_behaviour split: proc_behaviour.split)


lemma popup_argv_severity:
  "popup_argv arguments =
     [''osascript'', ''-e'',
      applescript (dict_get arguments ''title'' (PStr ''Productivity Alert''))
        (dict_get arguments ''message'' (PStr ''Please return to your productive work''))
        (case arguments ''severity'' of None \<Rightarrow> PStr ''warning'' | Some v \<Rightarrow> v)]"
  by (simp add: popup_argv_def dict_get_def)

lemma severity_rejected:
  assumes "arguments ''severity'' = Some v"
    and "v \<noteq> PStr ''info''" and "v \<noteq> PStr ''warning''" and "v \<noteq> PStr ''critical''"
  shows "\<not> valid_input show_popup_schema arguments"
  using assms by (auto dest: severity_checked)

text \<open>
  C5, amended. A \<^verbatim>\<open>show_popup\<close> call whose severity is none of \<^verbatim>\<open>info\<close>,
  \<^verbatim>\<open>warning\<close>, \<^verbatim>\<open>critical\<close> is rejected by the registered dispatch with an input
  validation error, and no alert command is built or run. For arguments that pass the
  validation, whatever the command then does, \<^verbatim>\<open>subprocess.run\<close> is called once, with
  a bound of 15 seconds, and the command is built with \<^verbatim>\<open>warning\<close> when no severity
  is given and with the given severity otherwise.
\<close>

theorem severity_outside_enum_is_rejected:
  "(arguments ''severity'' = Some v \<longrightarrow>
    v \<noteq> PStr ''info'' \<longrightarrow> v \<noteq> PStr ''warning'' \<longrightarrow> v \<noteq> PStr ''critical'' \<longrightarrow>
      call_tool e ''show_popup'' arguments w =
        (\<lparr>content = text_reply (''Input validation error: '' @
            schema_message e ''show_popup'' arguments), isError = True\<rparr>, w) \<and>
      calls (snd (call_tool e ''show_popup'' arguments w)) = calls w) \<and>
   (valid_input show_popup_schema arguments \<longrightarrow>
      calls (snd (call_tool e ''show_popup'' arguments w)) =
        calls w @
        [([''osascript'', ''-e'',
           applescript (dict_get arguments ''title'' (PStr ''Productivity Alert''))
             (dict_get arguments ''message'' (PStr ''Please return to your productive work''))
             (case arguments ''severity'' of None \<Rightarrow> PStr ''warning'' | Some v \<Rightarrow> v)], 15)])"
proof (intro conjI impI)
  assume sev: "arguments ''severity'' = Some v"
    and out: "v \<noteq> PStr ''info''" "v \<noteq> PStr ''warning''" "v \<noteq> PStr ''critical''"
  then have "\<not> valid_input show_popup_schema arguments"
    by (rule severity_rejected)
  then have rejected: "call_tool e ''show_popup'' arguments w =
      (validation_error e ''show_popup'' arguments, w)"
    by (simp add: call_show_popup)
  then show "call_tool e ''show_popup'' arguments w =
        (\<lparr>content = text_reply (''Input validation error: '' @
            schema_message e ''show_popup'' arguments), isError = True\<rparr>, w)"
    by (simp add: validation_error_def)
  from rejected show "calls (snd (call_tool e ''show_popup'' arguments w)) = calls w"
    by simp
next
  assume "valid_input show_popup_schema arguments"
  then have "call_tool e ''show_popup'' arguments w = run_handler e ''show_popup'' arguments w"
    by (simp add: call_show_popup)
  then have "calls (snd (call_tool e ''show_popup'' arguments w)) =
      calls (snd (show_popup e arguments w))"
    by (simp add: run_handler_def handle_call_tool_def split: prod.split)
  also have "\<dots> = calls w @ [(popup_argv arguments, 15)]"
    by (rule show_popup_calls)
  finally show "calls (snd (call_tool e ''show_popup'' arguments w)) =
        calls w @
        [([''osascript'', ''-e'',
           applescript (dict_get arguments ''title'' (PStr ''Productivity Alert''))
             (dict_get arguments ''message'' (PStr ''Please return to your productive work''))
             (case arguments ''severity'' of None \<Rightarrow> PStr ''warning'' | Some v \<Rightarrow> v)], 15)]"
    by (simp only: popup_argv_severity)
qed

lemma bogus_script:
  \<open>applescript (PStr ''Alert'') (PStr ''Back to work'') (PStr ''bogus'') =
   ''\<newline>            display alert "Alert" message "Back to work" as bogus giving up after 10\<newline>            ''\<close>
  by (simp add: applescript_def)

lemma warning_script:
  \<open>applescript (PStr ''Alert'') (PStr ''Back to work'') (PStr ''warning'') =
   ''\<newline>            display alert "Alert" message "Back to work" as warning giving up after 10\<newline>            ''\<close>
  by (simp add: applescript_def)

lemma critical_script:
  \<open>applescript (PStr ''Alert'') (PStr ''Back to work'') (PStr ''critical'') =
   ''\<newline>            display alert "Alert" message "Back to work" as critical giving up after 10\<newline>            ''\<close>
  by (simp add: applescript_def)

lemma valid_plain: "valid_input show_popup_schema plain_args"
  by (simp add: valid_show_popup present_ok_def property_ok_def plain_args_def)

lemma valid_critical: "valid_input show_popup_schema critical_args"
  by (simp add: valid_show_popup present_ok_def property_ok_def critical_args_def)

lemma invalid_bogus: "\<not> valid_input show_popup_schema bogus_args"
  by (simp add: valid_show_popup present_ok_def property_ok_def bogus_args_def)

text \<open>
  C5, as stated, fails: for the severity \<^verbatim>\<open>bogus\<close> the dispatch answers with an error
  and no command is built, with \<^verbatim>\<open>warning\<close> or otherwise; the handler called on its
  own builds the command \<^verbatim>\<open>as bogus\<close>.
\<close>

theorem bogus_severity_builds_no_warning:
  \<open>bogus_args ''severity'' = Some (PStr ''bogus'') \<and>
   ''bogus'' \<noteq> ''info'' \<and> ''bogus'' \<noteq> ''warning'' \<and> ''bogus'' \<noteq> ''critical'' \<and>
   isError (fst (call_tool calm_env ''show_popup'' bogus_args empty_world)) \<and>
   content (fst (call_tool calm_env ''show_popup'' bogus_args empty_world)) =
     text_reply ''Input validation error: invalid arguments'' \<and>
   calls (snd (call_tool calm_env ''show_popup'' bogus_args empty_world)) = [] \<and>
   events (snd (call_tool calm_env ''show_popup'' bogus_args empty_world)) = [] \<and>
   calls (snd (handle_call_tool calm_env ''show_popup'' bogus_args empty_world)) =
     [([''osascript'', ''-e'',
        ''\<newline>            display alert "Alert" message "Back to work" as bogus giving up after 10\<newline>            ''],
       15)]\<close>
proof -
  have "call_tool calm_env ''show_popup'' bogus_args empty_world =
      (validation_error calm_env ''show_popup'' bogus_args, empty_world)"
    using invalid_bogus by (simp add: call_show_popup)
  moreover have "calls (snd (handle_call_tool calm_env ''show_popup'' bogus_args empty_world)) =
      calls empty_world @ [(popup_argv bogus_args, 15)]"
    by (simp add: handle_call_tool_def show_popup_calls)
  ultimately show ?thesis
    by (simp add: validation_error_def calm_env_def empty_world_def popup_argv_severity
        bogus_args_def dict_get_def bogus_script)
qed

text \<open>
  The amended statement with the severity \<^verbatim>\<open>bogus\<close>, with no severity and with
  \<^verbatim>\<open>critical\<close>.
\<close>

theorem severity_outside_enum_is_rejected_witness:
  \<open>call_tool calm_env ''show_popup'' bogus_args empty_world =
     (\<lparr>content = text_reply ''Input validation error: invalid arguments'', isError = True\<rparr>,
      empty_world) \<and>
   calls (snd (call_tool calm_env ''show_popup'' plain_args empty_world)) =
     [([''osascript'', ''-e'',
        ''\<newline>            display alert "Alert" message "Back to work" as warning giving up after 10\<newline>            ''],
       15)] \<and>
   calls (snd (call_tool calm_env ''show_popup'' critical_args empty_world)) =
     [([''osascript'', ''-e'',
        ''\<newline>            display alert "Alert" message "Back to work" as critical giving up after 10\<newline>            ''],
       15)]\<close>
proof -
  have b: "bogus_args ''severity'' = Some (PStr ''bogus'')"
    by (simp add: bogus_args_def)
  have m: "schema_message calm_env name arguments = ''invalid arguments''" for name arguments
    by (simp add: calm_env_def)
  have w: "calls empty_world = []"
    by (simp add: empty_world_def)
  have p: "dict_get plain_args ''title'' d = PStr ''Alert''"
    "dict_get plain_args ''message'' d = PStr ''Back to work''"
    "plain_args ''severity'' = None" for d
    by (simp_all add: plain_args_def dict_get_def)
  have c: "dict_get critical_args ''title'' d = PStr ''Alert''"
    "dict_get critical_args ''message'' d = PStr ''Back to work''"
    "critical_args ''severity'' = Some (PStr ''critical'')" for d
    by (simp_all add: critical_args_def dict_get_def)
  show ?thesis
    using severity_outside_enum_is_rejected
        [of bogus_args "PStr ''bogus''" calm_env empty_world, THEN conjunct1]
      severity_outside_enum_is_rejected
        [of plain_args "PStr ''bogus''" calm_env empty_world, THEN conjunct2]
      severity_outside_enum_is_rejected
        [of critical_args "PStr ''bogus''" calm_env empty_world, THEN conjunct2]
    by (simp add: b m w p c valid_plain valid_critical warning_script critical_script)
qed

section \<open>The tool-call handler: the activity log\<close>

lemma high_nibble: "n < 256 \<Longrightarrow> n div 16 < (16::nat)"
  by simp

lemma of_char_hex_digit: "n < 16 \<Longrightarrow> 48 \<le> (of_char (hex_digit n) :: nat)"
  by (simp add: hex_digit_def of_char_of)

lemma newline_not_hex: "n < 16 \<Longrightarrow> hex_digit n \<noteq> CHR ''\<newline>''"
proof
  assume "n < 16" and "hex_digit n = CHR ''\<newline>''"
  then have "(of_char (hex_digit n) :: nat) = 10" by simp
  with of_char_hex_digit [OF \<open>n < 16\<close>] show False by simp
qed

lemma newline_not_escaped: "CHR ''\<newline>'' \<notin> set (escape_char c)"
proof -
  have b: "(of_char c :: nat) div 16 < 16" by (rule high_nibble) simp
  have m: "(of_char c :: nat) mod 16 < 16" by simp
  have p: "32 \<le> (of_char c :: nat) \<Longrightarrow> c \<noteq> CHR ''\<newline>''" by auto
  show ?thesis
    unfolding escape_char_def Let_def
    using newline_not_hex [OF b] newline_not_hex [OF m] p
    by (auto simp del: of_char_eq_iff)
qed

lemma newline_not_in_json_str: "CHR ''\<newline>'' \<notin> set (json_str s)"
  by (induction s) (simp_all add: json_str_def newline_not_escaped)

lemma newline_not_digit: "is_digit c \<Longrightarrow> c \<noteq> CHR ''\<newline>''"
  by (auto simp: is_digit_def)

lemma newline_not_in_nat_dec: "CHR ''\<newline>'' \<notin> set (nat_dec n)"
  using digits_nat_dec [of n] newline_not_digit by (auto simp: list_all_iff)

lemma newline_not_in_int_dec: "CHR ''\<newline>'' \<notin> set (int_dec i)"
  by (simp add: int_dec_def newline_not_in_nat_dec)

lemma newline_not_in_float_text:
  assumes "float_text r"
  shows "CHR ''\<newline>'' \<notin> set r"
proof
  assume mem: "CHR ''\<newline>'' \<in> set r"
  from assms have "list_all (\<lambda>c. c \<in> set ''0123456789.e+-infa'') r"
    unfolding float_text_def by (rule conjunct2)
  then have "\<forall>c \<in> set r. c \<in> set ''0123456789.e+-infa''"
    by (simp only: list_all_iff)
  then have "CHR ''\<newline>'' \<in> set ''0123456789.e+-infa''"
    using mem by (rule bspec)
  then show False by simp
qed

lemma newline_not_in_json_val:
  assumes "well_formed v"
  shows "CHR ''\<newline>'' \<notin> set (json_val v)"
proof (cases v)
  case (PFloat r)
  with assms have "CHR ''\<newline>'' \<notin> set r"
    by (simp add: newline_not_in_float_text)
  with PFloat show ?thesis by simp
qed (simp_all add: newline_not_in_int_dec newline_not_in_json_str)

lemma newline_not_in_json_item:
  "well_formed (snd kv) \<Longrightarrow> CHR ''\<newline>'' \<notin> set (json_item kv)"
  by (simp add: json_item_def newline_not_in_json_str newline_not_in_json_val)

lemma newline_not_in_str_join:
  "list_all (\<lambda>x. CHR ''\<newline>'' \<notin> set x) xs \<Longrightarrow> CHR ''\<newline>'' \<notin> set sep \<Longrightarrow>
   CHR ''\<newline>'' \<notin> set (str_join sep xs)"
  by (induction sep xs rule: str_join.induct) simp_all

lemma newline_not_in_json_dumps:
  assumes "list_all (\<lambda>kv. well_formed (snd kv)) d"
  shows "CHR ''\<newline>'' \<notin> set (json_dumps d)"
proof -
  from assms have "list_all (\<lambda>x. CHR ''\<newline>'' \<notin> set x) (map json_item d)"
    by (simp add: list_all_iff newline_not_in_json_item)
  then have "CHR ''\<newline>'' \<notin> set (str_join '', '' (map json_item d))"
    by (rule newline_not_in_str_join) simp
  then show ?thesis by (simp add: json_dumps_def)
qed

lemma log_activity_ok:
  assumes "fault e = NoFault"
  shows "log_activity e arguments w =
     (text_reply (''Activity logged: '' @
        py_str (dict_get arguments ''activity'' (PStr ''Unknown activity'')) @ '' ('' @
        (if truthy (dict_get arguments ''productive'' (PBool False)) then ''productive''
         else ''unproductive'') @ '') in '' @
        py_str (dict_get arguments ''app_name'' (PStr ''Unknown app''))),
      w\<lparr>dirs := insert (log_dir e) (dirs w),
        files := (files w)(log_path e \<mapsto>
          contents w (log_path e) @ json_dumps (log_entry e arguments) @ ''\<newline>'')\<rparr>)"
  using assms by (simp add: log_activity_def write_log_def)

lemma log_activity_fails:
  assumes "fault e \<noteq> NoFault"
  shows "(\<exists>m. fst (log_activity e arguments w) = text_reply (''Failed to log activity: '' @ m)) \<and>
     contents (snd (log_activity e arguments w)) (log_path e) = contents w (log_path e)"
  using assms by (cases "fault e") (auto simp: log_activity_def write_log_def contents_def)

lemma json_dumps_four:
  \<open>json_dumps [(''timestamp'', t), (''activity'', a), (''productive'', p), (''app_name'', n)] =
   ''{"timestamp": '' @ json_val t @ '', "activity": '' @ json_val a @
   '', "productive": '' @ json_val p @ '', "app_name": '' @ json_val n @ ''}''\<close>
  by (simp add: json_dumps_def json_item_def json_str_def escape_char_def)

text \<open>
  C9. When nothing fails in the file system and \<^verbatim>\<open>activity\<close>, \<^verbatim>\<open>productive\<close> and
  \<^verbatim>\<open>app_name\<close> are supplied, \<^verbatim>\<open>log_activity\<close> appends to the log file exactly the
  JSON text of the record with the four fields \<^verbatim>\<open>timestamp\<close>, \<^verbatim>\<open>activity\<close>,
  \<^verbatim>\<open>productive\<close>, \<^verbatim>\<open>app_name\<close> (the last three with the supplied values) followed by
  one newline, and that JSON text holds no newline itself: one line is appended.
  When the file system fails, the reply is the text \<^verbatim>\<open>Failed to log activity: ...\<close>
  and the contents of the log file are as before.
\<close>

theorem log_activity_appends_one_line:
  \<open>(fault e = NoFault \<longrightarrow> arguments ''activity'' = Some a \<longrightarrow>
    arguments ''productive'' = Some p \<longrightarrow> arguments ''app_name'' = Some n \<longrightarrow>
    float_text (loop_time e) \<longrightarrow> well_formed a \<longrightarrow> well_formed p \<longrightarrow> well_formed n \<longrightarrow>
      contents (snd (handle_call_tool e ''log_activity'' arguments w)) (log_path e) =
        contents w (log_path e) @
        json_dumps [(''timestamp'', PFloat (loop_time e)), (''activity'', a),
                    (''productive'', p), (''app_name'', n)] @ ''\<newline>'' \<and>
      json_dumps [(''timestamp'', PFloat (loop_time e)), (''activity'', a),
                  (''productive'', p), (''app_name'', n)] =
        ''{"timestamp": '' @ json_val (PFloat (loop_time e)) @ '', "activity": '' @ json_val a @
        '', "productive": '' @ json_val p @ '', "app_name": '' @ json_val n @ ''}'' \<and>
      CHR ''\<newline>'' \<notin> set (json_dumps [(''timestamp'', PFloat (loop_time e)), (''activity'', a),
                  (''productive'', p), (''app_name'', n)])) \<and>
   (fault e \<noteq> NoFault \<longrightarrow>
      (\<exists>m. fst (handle_call_tool e ''log_activity'' arguments w) =
         text_reply (''Failed to log activity: '' @ m)) \<and>
      contents (snd (handle_call_tool e ''log_activity'' arguments w)) (log_path e) =
        contents w (log_path e))\<close>
proof (intro conjI impI)
  assume ok: "fault e = NoFault"
    and args: "arguments ''activity'' = Some a" "arguments ''productive'' = Some p"
      "arguments ''app_name'' = Some n"
    and wf: "float_text (loop_time e)" "well_formed a" "well_formed p" "well_formed n"
  let ?entry = "[(''timestamp'', PFloat (loop_time e)), (''activity'', a),
                 (''productive'', p), (''app_name'', n)]"
  from args have entry: "log_entry e arguments = ?entry"
    by (simp add: log_entry_def dict_get_def)
  show "contents (snd (handle_call_tool e ''log_activity'' arguments w)) (log_path e) =
      contents w (log_path e) @ json_dumps ?entry @ ''\<newline>''"
    using ok entry by (simp add: handle_call_tool_def log_activity_ok contents_def)
  show \<open>json_dumps ?entry =
      ''{"timestamp": '' @ json_val (PFloat (loop_time e)) @ '', "activity": '' @ json_val a @
      '', "productive": '' @ json_val p @ '', "app_name": '' @ json_val n @ ''}''\<close>
    by (rule json_dumps_four)
  show "CHR ''\<newline>'' \<notin> set (json_dumps ?entry)"
    using wf by (intro newline_not_in_json_dumps) simp
next
  assume "fault e \<noteq> NoFault"
  then show "\<exists>m. fst (handle_call_tool e ''log_activity'' arguments w) =
         text_reply (''Failed to log activity: '' @ m)"
    using log_activity_fails [of e arguments w] by (simp add: handle_call_tool_def)
next
  assume "fault e \<noteq> NoFault"
  then show "contents (snd (handle_call_tool e ''log_activity'' arguments w)) (log_path e) =
        contents w (log_path e)"
    using log_activity_fails [of e arguments w] by (simp add: handle_call_tool_def)
qed

lemma browsing_line:
  \<open>json_dumps [(''timestamp'', PFloat ''12.5''), (''activity'', PStr ''browsing''),
     (''productive'', PBool False), (''app_name'', PStr ''Safari'')] =
   ''{"timestamp": 12.5, "activity": "browsing", "productive": false, "app_name": "Safari"}''\<close>
  by (simp add: json_dumps_four json_str_def escape_char_def)

lemma calm_float: "float_text (loop_time calm_env)"
  by (simp add: calm_env_def float_text_def)

text \<open>The scenario of the specification, and a full disk.\<close>

theorem log_activity_appends_one_line_witness:
  \<open>contents (snd (handle_call_tool calm_env ''log_activity'' browsing_args empty_world))
     (log_path calm_env) =
     ''{"timestamp": 12.5, "activity": "browsing", "productive": false, "app_name": "Safari"}\<newline>'' \<and>
   CHR ''\<newline>'' \<notin> set
     ''{"timestamp": 12.5, "activity": "browsing", "productive": false, "app_name": "Safari"}'' \<and>
   fst (handle_call_tool full_disk_env ''log_activity'' browsing_args empty_world) =
     text_reply ''Failed to log activity: No space left on device''\<close>
proof -
  have a: "browsing_args ''activity'' = Some (PStr ''browsing'')"
    and p: "browsing_args ''productive'' = Some (PBool False)"
    and n: "browsing_args ''app_name'' = Some (PStr ''Safari'')"
    by (simp_all add: browsing_args_def)
  have f: "fault calm_env = NoFault" and t: "loop_time calm_env = ''12.5''"
    by (simp_all add: calm_env_def)
  have c: "contents empty_world (log_path calm_env) = []"
    by (simp add: contents_def empty_world_def)
  note ok = log_activity_appends_one_line [of calm_env browsing_args "PStr ''browsing''"
      "PBool False" "PStr ''Safari''" empty_world, THEN conjunct1, rule_format,
      OF f a p n calm_float, simplified t browsing_line c]
  have "fst (handle_call_tool full_disk_env ''log_activity'' browsing_args empty_world) =
     text_reply ''Failed to log activity: No space left on device''"
    by (simp add: handle_call_tool_def log_activity_def write_log_def full_disk_env_def)
  with ok show ?thesis by simp
qed

text \<open>
  C10. When \<^verbatim>\<open>app_name\<close> is omitted the record's \<^verbatim>\<open>app_name\<close> is \<^verbatim>\<open>Unknown app\<close>,
  when \<^verbatim>\<open>productive\<close> is omitted the record's \<^verbatim>\<open>productive\<close> is false, and the record
  has the four keys whatever was supplied; this record is what is appended.
\<close>

theorem log_entry_defaults:
  "(arguments ''app_name'' = None \<longrightarrow>
      map_of (log_entry e arguments) ''app_name'' = Some (PStr ''Unknown app'')) \<and>
   (arguments ''productive'' = None \<longrightarrow>
      map_of (log_entry e arguments) ''productive'' = Some (PBool False)) \<and>
   map fst (log_entry e arguments) = [''timestamp'', ''activity'', ''productive'', ''app_name''] \<and>
   (fault e = NoFault \<longrightarrow>
      contents (snd (handle_call_tool e ''log_activity'' arguments w)) (log_path e) =
        contents w (log_path e) @ json_dumps (log_entry e arguments) @ ''\<newline>'')"
proof (intro conjI impI)
  assume "arguments ''app_name'' = None"
  then show "map_of (log_entry e arguments) ''app_name'' = Some (PStr ''Unknown app'')"
    by (simp add: log_entry_def dict_get_def)
next
  assume "arguments ''productive'' = None"
  then show "map_of (log_entry e arguments) ''productive'' = Some (PBool False)"
    by (simp add: log_entry_def dict_get_def)
next
  show "map fst (log_entry e arguments) = [''timestamp'', ''activity'', ''productive'', ''app_name'']"
    by (simp add: log_entry_def)
next
  assume "fault e = NoFault"
  then show "contents (snd (handle_call_tool e ''log_activity'' arguments w)) (log_path e) =
      contents w (log_path e) @ json_dumps (log_entry e arguments) @ ''\<newline>''"
    by (simp add: handle_call_tool_def log_activity_ok contents_def)
qed

lemma coding_line:
  \<open>json_dumps [(''timestamp'', PFloat ''12.5''), (''activity'', PStr ''coding''),
     (''productive'', PBool False), (''app_name'', PStr ''Unknown app'')] =
   ''{"timestamp": 12.5, "activity": "coding", "productive": false, "app_name": "Unknown app"}''\<close>
  by (simp add: json_dumps_four json_str_def escape_char_def)

text \<open>A call that supplies only the activity.\<close>

theorem log_entry_defaults_witness:
  \<open>map_of (log_entry calm_env coding_args) ''app_name'' = Some (PStr ''Unknown app'') \<and>
   map_of (log_entry calm_env coding_args) ''productive'' = Some (PBool False) \<and>
   contents (snd (handle_call_tool calm_env ''log_activity'' coding_args empty_world))
     (log_path calm_env) =
     ''{"timestamp": 12.5, "activity": "coding", "productive": false, "app_name": "Unknown app"}\<newline>''\<close>
proof -
  have f: "fault calm_env = NoFault"
    by (simp add: calm_env_def)
  have c: "contents empty_world (log_path calm_env) = []"
    by (simp add: contents_def empty_world_def)
  have a: "coding_args ''app_name'' = None" "coding_args ''productive'' = None"
    by (simp_all add: coding_args_def)
  have l: "log_entry calm_env coding_args =
     [(''timestamp'', PFloat ''12.5''), (''activity'', PStr ''coding''),
      (''productive'', PBool False), (''app_name'', PStr ''Unknown app'')]"
    by (simp add: log_entry_def dict_get_def calm_env_def coding_args_def)
  show ?thesis
    using log_entry_defaults [of coding_args calm_env empty_world]
    by (simp add: f c a) (simp add: l coding_line)
qed

section \<open>Outcomes of the alert command\<close>




end
